theory Spec2Isabelle
  imports Main "HOL-Library.Word"
begin

unbundle bit_operations_syntax

section \<open>Machine types\<close>

type_synonym u8 = "8 word"
type_synonym u16 = "16 word"
type_synonym u32 = "32 word"

section \<open>Date packing (nfc.cpp, lines 14--33)\<close>

text \<open>
  \<open>pack_date\<close> takes \<open>u8 month\<close>, \<open>u8 day\<close>, \<open>u16 year\<close>. C++ promotes the three of
  them to the 32-bit \<open>int\<close> before \<open>&\<close>, \<open><<\<close>, \<open>-\<close> and \<open>|\<close>; the \<open>int\<close> is then
  truncated to the 16 bits of the returned \<open>u16_be\<close>. A \<open>u16_be\<close> is a 16-bit value
  whose storage is big-endian: as a value it is a \<open>u16\<close>.
\<close>

definition pack_date :: "u8 \<Rightarrow> u8 \<Rightarrow> u16 \<Rightarrow> u16" where
  "pack_date month day year =
     ucast (push_bit 11 ((ucast day :: 32 word) AND 0x1F)
            OR push_bit 7 ((ucast month :: 32 word) AND 0x0F)
            OR (((ucast year :: 32 word) - 2000) AND 0x7F))"

definition unpack_date_day :: "u16 \<Rightarrow> u8" where
  "unpack_date_day date = ucast (drop_bit 11 (date AND 0xF800))"

definition unpack_date_month :: "u16 \<Rightarrow> u8" where
  "unpack_date_month date = ucast (drop_bit 7 (date AND 0x780))"

definition unpack_date_year :: "u16 \<Rightarrow> u16" where
  "unpack_date_year date = (date AND 0x7F) + 2000"

text \<open>If this bit is enabled, the "amiibo Settings" app has been used.\<close>

definition flag_settings_initted :: "u8 \<Rightarrow> bool" where
  "flag_settings_initted flags = (flags AND 0x10 \<noteq> 0)"

text \<open>If this bit is enabled, AppData exists on the amiibo.\<close>

definition flag_appdata_initted :: "u8 \<Rightarrow> bool" where
  "flag_appdata_initted flags = (flags AND 0x20 \<noteq> 0)"

section \<open>Enumerations (nfc.h)\<close>

datatype ErrCodes =
    CommandInvalidForState
  | AppDataUninitialized
  | AmiiboNotSetup
  | AppIdMismatch
  | DataCorruption0
  | DataCorruption1

datatype TagState =
    NotInitialized
  | NotScanning
  | Scanning
  | TagInRange
  | TagOutOfRange
  | TagDataLoaded
  | Unknown6

text \<open>
  \<open>CommunicationStatus\<close> has the members \<open>NotInitialized\<close>, \<open>AttemptInitialize\<close> and
  \<open>Initialized\<close>; they carry the prefix \<open>Comm\<close> here, since \<open>TagState\<close> has a
  \<open>NotInitialized\<close> of its own.
\<close>

datatype CommunicationStatus =
    CommNotInitialized
  | CommAttemptInitialize
  | CommInitialized

text \<open>
  Every error of this service is built as
  \<open>ResultCode(code, ErrorModule::NFC, ErrorSummary::InvalidState, ErrorLevel::Status)\<close>:
  the three last arguments never vary, so a result is \<open>RESULT_SUCCESS\<close> or one of the
  error codes.
\<close>

datatype ResultCode = RESULT_SUCCESS | ResultCode ErrCodes

section \<open>The amiibo byte buffer (nfc.h, AmiiboDataEnc and AmiiboDataDec)\<close>

text \<open>
  \<open>Module::amiibo_data\<close> is \<open>u8[sizeof(AmiiboDataDec)]\<close>, 0x21C bytes, read through
  a cast to one of the two packed structs. The model keeps the bytes and reads each field at
  the offset and with the endianness the struct declares.
\<close>

definition amiibo_size :: nat where
  "amiibo_size = 0x21C"

definition read_u16_be :: "u8 list \<Rightarrow> nat \<Rightarrow> u16" where
  "read_u16_be d off = push_bit 8 (ucast (d ! off)) OR ucast (d ! (off + 1))"

definition read_u16_le :: "u8 list \<Rightarrow> nat \<Rightarrow> u16" where
  "read_u16_le d off = push_bit 8 (ucast (d ! (off + 1))) OR ucast (d ! off)"

definition read_u32_be :: "u8 list \<Rightarrow> nat \<Rightarrow> u32" where
  "read_u32_be d off =
     push_bit 24 (ucast (d ! off)) OR push_bit 16 (ucast (d ! (off + 1)))
     OR push_bit 8 (ucast (d ! (off + 2))) OR ucast (d ! (off + 3))"

definition write_u16_be :: "u8 list \<Rightarrow> nat \<Rightarrow> u16 \<Rightarrow> u8 list" where
  "write_u16_be d off v = d[off := ucast (drop_bit 8 v), off + 1 := ucast v]"

definition write_u32_be :: "u8 list \<Rightarrow> nat \<Rightarrow> u32 \<Rightarrow> u8 list" where
  "write_u32_be d off v =
     d[off := ucast (drop_bit 24 v), off + 1 := ucast (drop_bit 16 v),
       off + 2 := ucast (drop_bit 8 v), off + 3 := ucast v]"

text \<open>\<open>read_bytes d off n\<close>: the \<open>n\<close> bytes of a \<open>std::array<u8, n>\<close> member at \<open>off\<close>.\<close>

definition read_bytes :: "u8 list \<Rightarrow> nat \<Rightarrow> nat \<Rightarrow> u8 list" where
  "read_bytes d off n = take n (drop off d)"

text \<open>\<open>memcpy(d + off, src, n)\<close>, for \<open>off + n\<close> inside \<open>d\<close> and \<open>n\<close> inside \<open>src\<close>.\<close>

definition memcpy_at :: "u8 list \<Rightarrow> nat \<Rightarrow> u8 list \<Rightarrow> nat \<Rightarrow> u8 list" where
  "memcpy_at d off src n = take off d @ take n src @ drop (off + n) d"

subsection \<open>AmiiboDataEnc\<close>

definition enc_uuid :: "u8 list \<Rightarrow> u8 list" where
  "enc_uuid d = read_bytes d 0 7"

definition enc_char_id :: "u8 list \<Rightarrow> u16" where
  "enc_char_id d = read_u16_le d 0x54"

definition enc_char_variant :: "u8 list \<Rightarrow> u8" where
  "enc_char_variant d = d ! 0x56"

definition enc_figure_type :: "u8 list \<Rightarrow> u8" where
  "enc_figure_type d = d ! 0x57"

definition enc_model_number :: "u8 list \<Rightarrow> u16" where
  "enc_model_number d = read_u16_be d 0x58"

definition enc_series :: "u8 list \<Rightarrow> u8" where
  "enc_series d = d ! 0x5A"

subsection \<open>AmiiboDataDec\<close>

definition dec_flags :: "u8 list \<Rightarrow> u8" where
  "dec_flags d = d ! 0x2C"

definition dec_country :: "u8 list \<Rightarrow> u8" where
  "dec_country d = d ! 0x2D"

definition dec_setup_date :: "u8 list \<Rightarrow> u16" where
  "dec_setup_date d = read_u16_be d 0x30"

definition dec_last_write_date :: "u8 list \<Rightarrow> u16" where
  "dec_last_write_date d = read_u16_be d 0x32"

definition dec_nickname :: "u8 list \<Rightarrow> u8 list" where
  "dec_nickname d = read_bytes d 0x38 0x14"

definition dec_mii :: "u8 list \<Rightarrow> u8 list" where
  "dec_mii d = read_bytes d 0x4C 0x60"

definition dec_write_count :: "u8 list \<Rightarrow> u16" where
  "dec_write_count d = read_u16_be d 0xB4"

definition dec_app_id :: "u8 list \<Rightarrow> u32" where
  "dec_app_id d = read_u32_be d 0xB6"

definition app_data_offset :: nat where
  "app_data_offset = 0xDC"

definition app_data_size :: nat where
  "app_data_size = 0xD8"

definition dec_app_data :: "u8 list \<Rightarrow> u8 list" where
  "dec_app_data d = read_bytes d app_data_offset app_data_size"

definition dec_uuid :: "u8 list \<Rightarrow> u8 list" where
  "dec_uuid d = read_bytes d 0x1D4 7"

definition dec_char_id :: "u8 list \<Rightarrow> u16" where
  "dec_char_id d = read_u16_le d 0x1DC"

definition dec_char_variant :: "u8 list \<Rightarrow> u8" where
  "dec_char_variant d = d ! 0x1DE"

definition dec_figure_type :: "u8 list \<Rightarrow> u8" where
  "dec_figure_type d = d ! 0x1DF"

definition dec_model_number :: "u8 list \<Rightarrow> u16" where
  "dec_model_number d = read_u16_be d 0x1E0"

definition dec_series :: "u8 list \<Rightarrow> u8" where
  "dec_series d = d ! 0x1E2"

definition dec_unknown3 :: "u8 list \<Rightarrow> u8" where
  "dec_unknown3 d = d ! 0x1E3"

section \<open>The module state (nfc.h, class Module)\<close>

text \<open>
  Modelled from the spec: \<open>Kernel::Event\<close> is no part of these sources; the spec treats
  an event as an opaque object with \<open>signal()\<close>. The model keeps, for each of the two
  events, the number of \<open>Signal()\<close> calls it has received.
\<close>

type_synonym Event = nat

definition Signal :: "Event \<Rightarrow> Event" where
  "Signal e = Suc e"

record Module =
  tag_in_range_event :: Event
  tag_out_of_range_event :: Event
  nfc_tag_state :: TagState
  nfc_status :: CommunicationStatus
  amiibo_data :: "u8 list"
  amiibo_decrypted :: bool
  amiibo_filename :: string
  amiibo_in_range :: bool

text \<open>Sync \<open>nfc_tag_state\<close> with \<open>amiibo_in_range\<close> and signal events on state change.\<close>

definition SyncTagState :: "Module \<Rightarrow> Module" where
  "SyncTagState m =
     (if amiibo_in_range m \<and>
         (nfc_tag_state m = TagOutOfRange \<or> nfc_tag_state m = Scanning)
      then m\<lparr>nfc_tag_state := TagInRange,
             tag_in_range_event := Signal (tag_in_range_event m)\<rparr>
      else if \<not> amiibo_in_range m \<and>
         (nfc_tag_state m = TagInRange \<or> nfc_tag_state m = TagDataLoaded \<or>
          nfc_tag_state m = Unknown6)
      then m\<lparr>nfc_tag_state := TagOutOfRange,
             tag_out_of_range_event := Signal (tag_out_of_range_event m)\<rparr>
      else m)"

section \<open>Replies\<close>

text \<open>
  The structs pushed raw into a reply. Padding members are left out. The \<open>nickname\<close> of
  \<open>AmiiboSettings\<close> is a \<open>std::array<u16, 11>\<close> that is only ever filled by \<open>memcpy\<close>:
  the model keeps the 22 bytes of its storage. \<open>TagInfo::id\<close> is \<open>tag_id\<close> here, and the
  members that \<open>AmiiboConfig\<close> shares with \<open>IdentificationBlockReply\<close> carry the prefix
  \<open>cfg_\<close>.
\<close>

record TagInfo =
  id_offset_size :: u16
  unk1 :: u8
  unk2 :: u8
  tag_id :: "u8 list"

record AmiiboSettings =
  mii :: "u8 list"
  nickname :: "u8 list"
  flags :: u8
  country :: u8
  setup_year :: u16
  setup_month :: u8
  setup_day :: u8
  dummy :: "u8 list"

record AmiiboConfig =
  last_write_year :: u16
  last_write_month :: u8
  last_write_day :: u8
  write_count :: u16
  cfg_char_id :: u16
  cfg_char_variant :: u8
  cfg_series :: u8
  cfg_model_number :: u16
  cfg_figure_type :: u8
  pagex4_byte3 :: u8
  appdata_size :: u16

record IdentificationBlockReply =
  char_id :: u16
  char_variant :: u8
  series :: u8
  model_number :: u16
  figure_type :: u8

datatype EventHandle = TagInRangeHandle | TagOutOfRangeHandle

datatype Payload =
    NoPayload
  | PushTagInfo TagInfo
  | PushAmiiboSettings AmiiboSettings
  | PushAmiiboConfig AmiiboConfig
  | PushIdentificationBlock IdentificationBlockReply
  | PushStaticBuffer "u8 list"
  | PushCopyObjects EventHandle
  | PushTagState TagState
  | PushCommunicationStatus CommunicationStatus

text \<open>
  A reply is what the handler pushed into its \<open>RequestBuilder\<close>: the result code, then
  the payload. A handler that returns before it makes a \<open>RequestBuilder\<close> writes no reply
  at all: \<open>None\<close>.
\<close>

type_synonym Reply = "ResultCode \<times> Payload"

definition status_only :: "ResultCode \<Rightarrow> Reply option" where
  "status_only rc = Some (rc, NoPayload)"

definition invalid_state :: "Reply option" where
  "invalid_state = status_only (ResultCode CommandInvalidForState)"

text \<open>\<open>AmiiboSettings amiibo_settings{}\<close>, and the same after \<open>memset(.., 0, ..)\<close>.\<close>

definition zeroed_settings :: AmiiboSettings where
  "zeroed_settings =
     \<lparr>mii = replicate 0x60 0, nickname = replicate 22 0, flags = 0, country = 0,
      setup_year = 0, setup_month = 0, setup_day = 0, dummy = replicate 0x2C 0\<rparr>"

section \<open>Service functions (nfc.cpp)\<close>

definition Initialize :: "u8 \<Rightarrow> Module \<Rightarrow> Reply option \<times> Module" where
  "Initialize param m =
     (if nfc_tag_state m \<noteq> NotInitialized then (invalid_state, m)
      else (status_only RESULT_SUCCESS, m\<lparr>nfc_tag_state := NotScanning\<rparr>))"

definition Shutdown :: "u8 \<Rightarrow> Module \<Rightarrow> Reply option \<times> Module" where
  "Shutdown param m = (status_only RESULT_SUCCESS, m\<lparr>nfc_tag_state := NotInitialized\<rparr>)"

definition StartCommunication :: "Module \<Rightarrow> Reply option \<times> Module" where
  "StartCommunication m = (status_only RESULT_SUCCESS, m)"

definition StopCommunication :: "Module \<Rightarrow> Reply option \<times> Module" where
  "StopCommunication m = (status_only RESULT_SUCCESS, m)"

definition StartTagScanning :: "u16 \<Rightarrow> Module \<Rightarrow> Reply option \<times> Module" where
  "StartTagScanning in_val m =
     (if nfc_tag_state m \<noteq> NotScanning \<and> nfc_tag_state m \<noteq> TagOutOfRange
      then (invalid_state, m)
      else (status_only RESULT_SUCCESS, SyncTagState (m\<lparr>nfc_tag_state := Scanning\<rparr>)))"

definition GetTagInfo :: "Module \<Rightarrow> Reply option \<times> Module" where
  "GetTagInfo m =
     (if nfc_tag_state m \<noteq> TagInRange \<and> nfc_tag_state m \<noteq> TagDataLoaded \<and>
         nfc_tag_state m \<noteq> Unknown6
      then (invalid_state, m)
      else
        let uuid = (if \<not> amiibo_decrypted m then enc_uuid (amiibo_data m)
                    else dec_uuid (amiibo_data m));
            tag_info = \<lparr>id_offset_size = 7, unk1 = 0x0, unk2 = 0x2,
                        tag_id = memcpy_at (replicate 0x28 0) 0 uuid 7\<rparr>
        in (Some (RESULT_SUCCESS, PushTagInfo tag_info), m))"

definition GetAmiiboSettings :: "Module \<Rightarrow> Reply option \<times> Module" where
  "GetAmiiboSettings m =
     (if \<not> amiibo_decrypted m then (None, m)
      else if \<not> flag_settings_initted (dec_flags (amiibo_data m))
      then (Some (ResultCode AmiiboNotSetup, PushAmiiboSettings zeroed_settings), m)
      else
        let d = amiibo_data m;
            amiibo_settings = zeroed_settings
              \<lparr>mii := read_bytes d 0x4C 0x60,
               nickname := read_bytes d 0x38 22,
               flags := dec_flags d AND 0xF,
               country := dec_country d,
               setup_day := unpack_date_day (dec_setup_date d),
               setup_month := unpack_date_month (dec_setup_date d),
               setup_year := unpack_date_year (dec_setup_date d),
               dummy := replicate 0x2C 0\<rparr>
        in (Some (RESULT_SUCCESS, PushAmiiboSettings amiibo_settings), m))"

definition OpenAppData :: "u32 \<Rightarrow> Module \<Rightarrow> Reply option \<times> Module" where
  "OpenAppData app_id m =
     (if \<not> amiibo_decrypted m then (None, m)
      else if app_id \<noteq> dec_app_id (amiibo_data m)
      then (status_only (ResultCode AppIdMismatch), m)
      else if \<not> flag_appdata_initted (dec_flags (amiibo_data m))
      then (status_only (ResultCode AppDataUninitialized), m)
      else (status_only RESULT_SUCCESS, m))"

text \<open>
  \<open>InitializeWriteAppData\<close> copies \<open>size\<close> bytes (here \<open>sz\<close>) into \<open>app_data\<close> without
  clamping \<open>size\<close>: a \<open>size\<close> above 0xD8 that matches the buffer's length writes past the end of
  the \<open>std::array\<close>, which is undefined behaviour. The model returns \<open>Inl BufferOverrun\<close>
  there.
\<close>

datatype Fault = BufferOverrun

definition InitializeWriteAppData ::
    "u32 \<Rightarrow> u32 \<Rightarrow> u8 list \<Rightarrow> Module \<Rightarrow> Fault + (Reply option \<times> Module)" where
  "InitializeWriteAppData app_id sz buffer m =
     (if \<not> amiibo_decrypted m then Inr (None, m)
      else if unat sz \<noteq> length buffer then Inr (status_only RESULT_SUCCESS, m)
      else if app_data_size < unat sz then Inl BufferOverrun
      else Inr (status_only RESULT_SUCCESS,
                m\<lparr>amiibo_data :=
                     write_u32_be
                       (memcpy_at (amiibo_data m) app_data_offset buffer (unat sz))
                       0xB6 app_id\<rparr>))"

definition ReadAppData :: "Module \<Rightarrow> Reply option \<times> Module" where
  "ReadAppData m =
     (if \<not> amiibo_decrypted m then (None, m)
      else if nfc_tag_state m = NotInitialized then (invalid_state, m)
      else (Some (RESULT_SUCCESS, PushStaticBuffer (dec_app_data (amiibo_data m))),
            m\<lparr>nfc_tag_state := TagDataLoaded\<rparr>))"

text \<open>
  \<open>WriteAppData\<close>: \<open>sz\<close> is the declared \<open>size\<close>, \<open>dummy_buffer\<close> and \<open>buffer\<close> the two
  static buffers popped from the request. \<open>clamped_size\<close> is \<open>size\<close> after the first
  \<open>if\<close>; the comparison with \<open>buffer.size()\<close> is made in \<open>size_t\<close>.
\<close>

definition clamped_size :: "u32 \<Rightarrow> nat" where
  "clamped_size sz =
     (if unat sz \<noteq> app_data_size \<and> app_data_size < unat sz then app_data_size
      else unat sz)"

definition WriteAppData ::
    "u32 \<Rightarrow> u8 list \<Rightarrow> u8 list \<Rightarrow> Module \<Rightarrow> Reply option \<times> Module" where
  "WriteAppData sz dummy_buffer buffer m =
     (if \<not> amiibo_decrypted m then (None, m)
      else if nfc_tag_state m = NotInitialized then (invalid_state, m)
      else
        let n = clamped_size sz;
            data' = (if n \<noteq> length buffer then amiibo_data m
                     else memcpy_at (amiibo_data m) app_data_offset buffer n)
        in (status_only RESULT_SUCCESS,
            m\<lparr>amiibo_data := data', nfc_tag_state := TagDataLoaded\<rparr>))"

definition GetAmiiboConfig :: "Module \<Rightarrow> Reply option \<times> Module" where
  "GetAmiiboConfig m =
     (let d = amiibo_data m;
          amiibo_config =
            (if \<not> amiibo_decrypted m then
               \<lparr>last_write_year = 2014, last_write_month = 11, last_write_day = 21,
                write_count = 1,
                cfg_char_id = enc_char_id d, cfg_char_variant = enc_char_variant d,
                cfg_series = enc_series d, cfg_model_number = enc_model_number d,
                cfg_figure_type = enc_figure_type d,
                pagex4_byte3 = 0x0, appdata_size = 0\<rparr>
             else
               \<lparr>last_write_year = unpack_date_year (dec_last_write_date d),
                last_write_month = unpack_date_month (dec_last_write_date d),
                last_write_day = unpack_date_day (dec_last_write_date d),
                write_count = dec_write_count d,
                cfg_char_id = dec_char_id d, cfg_char_variant = dec_char_variant d,
                cfg_series = dec_series d, cfg_model_number = dec_model_number d,
                cfg_figure_type = dec_figure_type d,
                pagex4_byte3 = 0x0, appdata_size = 0xD8\<rparr>)
      in (Some (RESULT_SUCCESS, PushAmiiboConfig amiibo_config), m))"

definition StopTagScanning :: "Module \<Rightarrow> Reply option \<times> Module" where
  "StopTagScanning m =
     (if nfc_tag_state m = NotInitialized \<or> nfc_tag_state m = NotScanning
      then (invalid_state, m)
      else (status_only RESULT_SUCCESS, m\<lparr>nfc_tag_state := NotScanning\<rparr>))"

definition LoadAmiiboData :: "Module \<Rightarrow> Reply option \<times> Module" where
  "LoadAmiiboData m = (status_only RESULT_SUCCESS, m\<lparr>nfc_tag_state := TagDataLoaded\<rparr>)"

definition ResetTagScanState :: "Module \<Rightarrow> Reply option \<times> Module" where
  "ResetTagScanState m =
     (if nfc_tag_state m \<noteq> TagDataLoaded \<and> nfc_tag_state m \<noteq> Unknown6
      then (invalid_state, m)
      else (status_only RESULT_SUCCESS, SyncTagState (m\<lparr>nfc_tag_state := TagInRange\<rparr>)))"

definition GetTagInRangeEvent :: "Module \<Rightarrow> Reply option \<times> Module" where
  "GetTagInRangeEvent m =
     (if nfc_tag_state m \<noteq> NotScanning then (invalid_state, m)
      else (Some (RESULT_SUCCESS, PushCopyObjects TagInRangeHandle), m))"

definition GetTagOutOfRangeEvent :: "Module \<Rightarrow> Reply option \<times> Module" where
  "GetTagOutOfRangeEvent m =
     (if nfc_tag_state m \<noteq> NotScanning then (invalid_state, m)
      else (Some (RESULT_SUCCESS, PushCopyObjects TagOutOfRangeHandle), m))"

definition GetTagState :: "Module \<Rightarrow> Reply option \<times> Module" where
  "GetTagState m = (Some (RESULT_SUCCESS, PushTagState (nfc_tag_state m)), m)"

definition CommunicationGetStatus :: "Module \<Rightarrow> Reply option \<times> Module" where
  "CommunicationGetStatus m =
     (Some (RESULT_SUCCESS, PushCommunicationStatus (nfc_status m)), m)"

definition Unknown0x1A :: "Module \<Rightarrow> Reply option \<times> Module" where
  "Unknown0x1A m =
     (if nfc_tag_state m \<noteq> TagInRange then (invalid_state, m)
      else (status_only RESULT_SUCCESS, m\<lparr>nfc_tag_state := Unknown6\<rparr>))"

definition GetIdentificationBlock :: "Module \<Rightarrow> Reply option \<times> Module" where
  "GetIdentificationBlock m =
     (if nfc_tag_state m \<noteq> TagDataLoaded \<and> nfc_tag_state m \<noteq> Unknown6
      then (invalid_state, m)
      else
        let d = amiibo_data m;
            reply =
              (if \<not> amiibo_decrypted m then
                 \<lparr>char_id = enc_char_id d, char_variant = enc_char_variant d,
                  series = enc_series d, model_number = enc_model_number d,
                  figure_type = enc_figure_type d\<rparr>
               else
                 \<lparr>char_id = dec_char_id d, char_variant = dec_char_variant d,
                  series = dec_series d, model_number = dec_model_number d,
                  figure_type = dec_figure_type d\<rparr>)
        in (Some (RESULT_SUCCESS, PushIdentificationBlock reply), m))"

section \<open>Persistence\<close>

text \<open>
  Modelled from the spec: \<open>FileUtil::IOFile\<close> is no part of these sources. The spec
  treats persistence as a byte-blob collaborator keyed by a path: a load reads exactly 0x21C
  bytes and fails if the source is unreadable or short; a store may find the path unwritable.
  \<open>file_bytes fs p\<close> is the content of the file at \<open>p\<close> (\<open>None\<close>: it cannot be opened for
  reading); \<open>write_mode fs p\<close> says what opening \<open>p\<close> for writing and writing to it do.
\<close>

datatype WriteMode = CannotOpen | CannotWrite | Writable

record FileSystem =
  file_bytes :: "string \<Rightarrow> u8 list option"
  write_mode :: "string \<Rightarrow> WriteMode"

text \<open>\<open>IOFile(path, "rb")\<close>, \<open>IsOpen()\<close> and \<open>ReadBytes(&buf, n)\<close>: the \<open>n\<close> bytes read, if any.\<close>

definition ReadBytes :: "FileSystem \<Rightarrow> string \<Rightarrow> nat \<Rightarrow> u8 list option" where
  "ReadBytes fs path n =
     (case file_bytes fs path of
        None \<Rightarrow> None
      | Some bytes \<Rightarrow> if length bytes < n then None else Some (take n bytes))"

text \<open>\<open>IOFile(path, "wb")\<close>: where the file opens, it is created or truncated.\<close>

definition open_wb :: "FileSystem \<Rightarrow> string \<Rightarrow> bool \<times> FileSystem" where
  "open_wb fs path =
     (if write_mode fs path = CannotOpen then (False, fs)
      else (True, fs\<lparr>file_bytes := (file_bytes fs)(path := Some [])\<rparr>))"

text \<open>\<open>WriteBytes(data, n)\<close> on a file that is open for writing.\<close>

definition WriteBytes :: "FileSystem \<Rightarrow> string \<Rightarrow> u8 list \<Rightarrow> nat \<Rightarrow> bool \<times> FileSystem" where
  "WriteBytes fs path data n =
     (if write_mode fs path = Writable
      then (True, fs\<lparr>file_bytes := (file_bytes fs)(path := Some (take n data))\<rparr>)
      else (False, fs))"

section \<open>Loading, removing and storing the amiibo (nfc.cpp)\<close>

definition LoadAmiibo :: "string \<Rightarrow> FileSystem \<Rightarrow> Module \<Rightarrow> bool \<times> Module" where
  "LoadAmiibo fullpath fs m =
     (case ReadBytes fs fullpath amiibo_size of
        None \<Rightarrow> (False, m)
      | Some data \<Rightarrow>
          (True,
           SyncTagState
             (m\<lparr>amiibo_decrypted := (dec_unknown3 data = 0x02),
                amiibo_filename := fullpath,
                amiibo_in_range := True,
                amiibo_data := data\<rparr>)))"

definition RemoveAmiibo :: "Module \<Rightarrow> Module" where
  "RemoveAmiibo m = SyncTagState (m\<lparr>amiibo_in_range := False\<rparr>)"

text \<open>
  \<open>UpdateStoredAmiiboData\<close> opens the file first (the \<open>IOFile\<close> constructor), then updates
  \<open>last_write_date\<close> and \<open>write_count\<close> in \<open>amiibo_data\<close>, and only then looks at
  \<open>IsOpen()\<close> and at the result of \<open>WriteBytes\<close>; both failures are logged and nothing
  else. \<open>write_count++\<close> is on a \<open>u16_be\<close>: it wraps at 16 bits.
\<close>

text \<open>The block under \<open>/* Update metadata */\<close>.\<close>

definition update_metadata :: "u8 list \<Rightarrow> u8 list" where
  "update_metadata d =
     (let d1 = write_u16_be d 0x32 (pack_date 11 21 2014)
      in write_u16_be d1 0xB4 (dec_write_count d1 + 1))"

definition UpdateStoredAmiiboData ::
    "FileSystem \<Rightarrow> Module \<Rightarrow> Reply option \<times> Module \<times> FileSystem" where
  "UpdateStoredAmiiboData fs m =
     (if nfc_tag_state m \<noteq> TagDataLoaded then (invalid_state, m, fs)
      else if \<not> amiibo_decrypted m then (invalid_state, m, fs)
      else if amiibo_filename m = [] then (invalid_state, m, fs)
      else
        let (is_open, fs1) = open_wb fs (amiibo_filename m);
            d = update_metadata (amiibo_data m);
            fs2 = (if \<not> is_open then fs1
                   else snd (WriteBytes fs1 (amiibo_filename m) d amiibo_size))
        in (status_only RESULT_SUCCESS, RemoveAmiibo (m\<lparr>amiibo_data := d\<rparr>), fs2))"

section \<open>The command table\<close>

text \<open>
  Modelled from the spec: the command tables of the two entry groups (\<open>nfc_m.cpp\<close>,
  \<open>nfc_u.cpp\<close>) are no part of these sources. The spec says that both route each numbered
  operation to the one handler of that name; a \<open>Command\<close> is a request already decoded
  into its typed arguments, numbered as the handler's \<open>RequestParser\<close> numbers it.
\<close>

datatype Command =
    Cmd_Initialize u8
  | Cmd_Shutdown u8
  | Cmd_StartCommunication
  | Cmd_StopCommunication
  | Cmd_StartTagScanning u16
  | Cmd_StopTagScanning
  | Cmd_LoadAmiiboData
  | Cmd_ResetTagScanState
  | Cmd_UpdateStoredAmiiboData
  | Cmd_GetTagInRangeEvent
  | Cmd_GetTagOutOfRangeEvent
  | Cmd_GetTagState
  | Cmd_CommunicationGetStatus
  | Cmd_GetTagInfo
  | Cmd_OpenAppData u32
  | Cmd_InitializeWriteAppData u32 u32 "u8 list"
  | Cmd_ReadAppData
  | Cmd_WriteAppData u32 "u8 list" "u8 list"
  | Cmd_GetAmiiboSettings
  | Cmd_GetAmiiboConfig
  | Cmd_Unknown0x1A
  | Cmd_GetIdentificationBlock

definition keep_files ::
    "FileSystem \<Rightarrow> Reply option \<times> Module \<Rightarrow> Fault + (Reply option \<times> Module \<times> FileSystem)" where
  "keep_files fs rm = Inr (fst rm, snd rm, fs)"

fun invoke ::
    "Command \<Rightarrow> FileSystem \<Rightarrow> Module \<Rightarrow> Fault + (Reply option \<times> Module \<times> FileSystem)" where
  "invoke (Cmd_Initialize param) fs m = keep_files fs (Initialize param m)"
| "invoke (Cmd_Shutdown param) fs m = keep_files fs (Shutdown param m)"
| "invoke Cmd_StartCommunication fs m = keep_files fs (StartCommunication m)"
| "invoke Cmd_StopCommunication fs m = keep_files fs (StopCommunication m)"
| "invoke (Cmd_StartTagScanning in_val) fs m = keep_files fs (StartTagScanning in_val m)"
| "invoke Cmd_StopTagScanning fs m = keep_files fs (StopTagScanning m)"
| "invoke Cmd_LoadAmiiboData fs m = keep_files fs (LoadAmiiboData m)"
| "invoke Cmd_ResetTagScanState fs m = keep_files fs (ResetTagScanState m)"
| "invoke Cmd_UpdateStoredAmiiboData fs m = Inr (UpdateStoredAmiiboData fs m)"
| "invoke Cmd_GetTagInRangeEvent fs m = keep_files fs (GetTagInRangeEvent m)"
| "invoke Cmd_GetTagOutOfRangeEvent fs m = keep_files fs (GetTagOutOfRangeEvent m)"
| "invoke Cmd_GetTagState fs m = keep_files fs (GetTagState m)"
| "invoke Cmd_CommunicationGetStatus fs m = keep_files fs (CommunicationGetStatus m)"
| "invoke Cmd_GetTagInfo fs m = keep_files fs (GetTagInfo m)"
| "invoke (Cmd_OpenAppData app_id) fs m = keep_files fs (OpenAppData app_id m)"
| "invoke (Cmd_InitializeWriteAppData app_id sz buffer) fs m =
     (case InitializeWriteAppData app_id sz buffer m of
        Inl fault \<Rightarrow> Inl fault
      | Inr rm \<Rightarrow> keep_files fs rm)"
| "invoke Cmd_ReadAppData fs m = keep_files fs (ReadAppData m)"
| "invoke (Cmd_WriteAppData sz dummy_buffer buffer) fs m =
     keep_files fs (WriteAppData sz dummy_buffer buffer m)"
| "invoke Cmd_GetAmiiboSettings fs m = keep_files fs (GetAmiiboSettings m)"
| "invoke Cmd_GetAmiiboConfig fs m = keep_files fs (GetAmiiboConfig m)"
| "invoke Cmd_Unknown0x1A fs m = keep_files fs (Unknown0x1A m)"
| "invoke Cmd_GetIdentificationBlock fs m = keep_files fs (GetIdentificationBlock m)"

section \<open>The specification's formulas\<close>

text \<open>
  The definitions of this section follow the words of the specification, not the code: the
  theorems below compare them with the code's functions.
\<close>

text \<open>
  The specification's \<open>pack_date\<close>, on unbounded integers:
  \<open>((day & 0x1F) << 11) | ((month & 0x0F) << 7) | ((year - 2000) & 0x7F)\<close>.
\<close>

definition pack_date_spec :: "int \<Rightarrow> int \<Rightarrow> int \<Rightarrow> int" where
  "pack_date_spec month day year =
     push_bit 11 (day AND 0x1F) OR push_bit 7 (month AND 0x0F) OR ((year - 2000) AND 0x7F)"

text \<open>
  The specification's reconciliation step: the next state, and how often the entered-range
  and the left-range event are signaled.
\<close>

definition reconcile_spec :: "TagState \<Rightarrow> bool \<Rightarrow> TagState \<times> nat \<times> nat" where
  "reconcile_spec state physically_present =
     (if physically_present \<and> (state = TagOutOfRange \<or> state = Scanning)
      then (TagInRange, 1, 0)
      else if \<not> physically_present \<and>
              (state = TagInRange \<or> state = TagDataLoaded \<or> state = Unknown6)
      then (TagOutOfRange, 0, 1)
      else (state, 0, 0))"

text \<open>
  The accepted-state sets the specification declares (section 4.4), for the operations that
  have one. \<open>StopTagScanning\<close> accepts every state but \<open>Uninitialized\<close> and \<open>NotScanning\<close>.
\<close>

definition accepted_states_spec :: "Command \<Rightarrow> TagState set option" where
  "accepted_states_spec c =
     (case c of
        Cmd_Initialize _ \<Rightarrow> Some {NotInitialized}
      | Cmd_StartTagScanning _ \<Rightarrow> Some {NotScanning, TagOutOfRange}
      | Cmd_StopTagScanning \<Rightarrow>
          Some {Scanning, TagInRange, TagOutOfRange, TagDataLoaded, Unknown6}
      | Cmd_ResetTagScanState \<Rightarrow> Some {TagDataLoaded, Unknown6}
      | Cmd_GetTagInfo \<Rightarrow> Some {TagInRange, TagDataLoaded, Unknown6}
      | Cmd_GetTagInRangeEvent \<Rightarrow> Some {NotScanning}
      | Cmd_GetTagOutOfRangeEvent \<Rightarrow> Some {NotScanning}
      | _ \<Rightarrow> None)"

section \<open>Sample inputs\<close>

text \<open>
  The module as its constructor leaves it (the member initialisers of \<open>class Module\<close>;
  \<open>amiibo_data\<close> has none, its bytes are taken as zero here). A module that holds a decrypted amiibo (all bytes zero but \<open>unknown3 = 0x02\<close>) whose data
  has been loaded, the same amiibo taken as encrypted, and two file systems: one where the
  amiibo's file can be written, one where it cannot be opened for writing.
\<close>

definition fresh_module :: Module where
  "fresh_module =
     \<lparr>tag_in_range_event = 0, tag_out_of_range_event = 0,
      nfc_tag_state = NotInitialized, nfc_status = CommInitialized,
      amiibo_data = replicate 0x21C 0,
      amiibo_decrypted = False, amiibo_filename = [],
      amiibo_in_range = False\<rparr>"

definition sample_module :: Module where
  "sample_module =
     \<lparr>tag_in_range_event = 0, tag_out_of_range_event = 0,
      nfc_tag_state = TagDataLoaded, nfc_status = CommInitialized,
      amiibo_data = (replicate 0x21C 0)[0x1E3 := 0x02],
      amiibo_decrypted = True, amiibo_filename = ''amiibo.bin'',
      amiibo_in_range = True\<rparr>"

definition raw_module :: Module where
  "raw_module = sample_module\<lparr>amiibo_decrypted := False\<rparr>"

definition sample_files :: FileSystem where
  "sample_files =
     \<lparr>file_bytes = (\<lambda>p. if p = ''amiibo.bin''
                          then Some ((replicate 0x21C 0)[0x1E3 := 0x02]) else None),
      write_mode = (\<lambda>p. Writable)\<rparr>"

definition readonly_files :: FileSystem where
  "readonly_files = sample_files\<lparr>write_mode := (\<lambda>p. CannotOpen)\<rparr>"

text \<open>
  A decrypted amiibo that has been set up: flags 0x13, country 0x4E, setup date 0xAD8E
  (21 November 2014) in big-endian, a nickname that starts with the character 0x0041, and a
  mii that starts with the bytes 0xAA 0xBB. The tag is in range.
\<close>

definition setup_data :: "u8 list" where
  "setup_data =
     replicate 0x2C 0 @ [0x13, 0x4E] @ [0, 0] @ [0xAD, 0x8E] @ replicate 6 0
     @ ([0x00, 0x41] @ replicate 18 0) @ ([0xAA, 0xBB] @ replicate 94 0)
     @ replicate 0x137 0 @ [0x02] @ replicate 0x38 0"

definition setup_module :: Module where
  "setup_module = sample_module\<lparr>nfc_tag_state := TagInRange, amiibo_data := setup_data\<rparr>"

section \<open>Words and bytes\<close>

lemma bit_below: "unat (w :: 'a::len word) < 2 ^ k \<Longrightarrow> bit w n \<Longrightarrow> n < k"
proof -
  assume a: "unat w < 2 ^ k" and b: "bit w n"
  have "take_bit k (unat w) = unat w" using a by (simp add: take_bit_nat_eq_self)
  then have "bit (unat w) n \<longleftrightarrow> bit (take_bit k (unat w)) n" by simp
  moreover have "bit (unat w) n" using b by (simp add: bit_unsigned_iff)
  ultimately show ?thesis by (simp add: bit_take_bit_iff)
qed

lemmas bit_below5 = bit_below[where k=5, simplified]
lemmas bit_below4 = bit_below[where k=4, simplified]
lemmas bit_below7 = bit_below[where k=7, simplified]

lemma mask_numerals32:
  "(0x1F :: 32 word) = mask 5" "(0x0F :: 32 word) = mask 4" "(0x7F :: 32 word) = mask 7"
  by (simp_all add: mask_eq_exp_minus_1)

lemma mask_numerals16:
  "(0x7F :: u16) = mask 7" "(0xF800 :: u16) = push_bit 11 (mask 5)"
  "(0x780 :: u16) = push_bit 7 (mask 4)"
  by (simp_all add: mask_eq_exp_minus_1)

lemma mask_numerals_int:
  "(0x1F :: int) = mask 5" "(0x0F :: int) = mask 4" "(0x7F :: int) = mask 7"
  by (simp_all add: mask_eq_exp_minus_1)

lemma unat_ucast_u16_32: "unat (ucast (y::u16) :: 32 word) = unat y"
proof -
  have "unat y < 2 ^ 16" using unsigned_less[of y] by simp
  then have "unat y < 2 ^ 32" by simp
  then show ?thesis by (simp add: unsigned_ucast_eq take_bit_nat_eq_self)
qed

lemma year_offset_ucast:
  assumes "2000 \<le> unat (y::u16)"
  shows "(ucast y :: 32 word) - 2000 = ucast (y - 2000)"
proof -
  have le16: "(2000 :: u16) \<le> y" using assms by (simp add: word_le_nat_alt)
  have le32: "(2000 :: 32 word) \<le> ucast y"
    using assms by (simp add: word_le_nat_alt unat_ucast_u16_32)
  have "unat ((ucast y :: 32 word) - 2000) = unat y - 2000"
    using le32 by (simp add: unat_sub unat_ucast_u16_32)
  moreover have "unat (ucast (y - 2000) :: 32 word) = unat y - 2000"
    using le16 by (simp add: unat_sub unat_ucast_u16_32)
  ultimately show ?thesis by (simp add: word_unat_eq_iff)
qed

lemma year_offset_small:
  "2000 \<le> unat (y::u16) \<Longrightarrow> unat y \<le> 2127 \<Longrightarrow> unat (y - 2000) < 128"
  by (simp add: unat_sub word_le_nat_alt)

lemma year_offset_uint:
  assumes "2000 \<le> unat (y::u16)"
  shows "uint (y - 2000) = uint y - 2000"
proof -
  have "(2000 :: u16) \<le> y" using assms by (simp add: word_le_nat_alt)
  then have "unat (y - 2000) = unat y - 2000" by (simp add: unat_sub)
  then have "int (unat (y - 2000)) = int (unat y) - 2000" using assms by simp
  then show ?thesis by (simp only: uint_nat)
qed

lemma pack_fields:
  "unat d < 32 \<Longrightarrow> unat m < 16 \<Longrightarrow> unat (e::u16) < 128 \<Longrightarrow>
   (ucast (push_bit 11 ((ucast (d::u8) :: 32 word) AND mask 5)
      OR push_bit 7 ((ucast (m::u8) :: 32 word) AND mask 4)
      OR ((ucast e :: 32 word) AND mask 7)) :: u16)
   = push_bit 11 (ucast d) OR push_bit 7 (ucast m) OR e"
  apply (rule bit_word_eqI)
  apply (auto simp add: bit_simps dest: bit_below5 bit_below4 bit_below7)
  done

lemma day_field:
  "unat d < 32 \<Longrightarrow> unat m < 16 \<Longrightarrow> unat (e::u16) < 128 \<Longrightarrow>
   (ucast (drop_bit 11 ((push_bit 11 (ucast (d::u8)) OR push_bit 7 (ucast (m::u8)) OR e)
       AND push_bit 11 (mask 5) :: u16)) :: u8) = d"
  apply (rule bit_word_eqI)
  apply (auto simp add: bit_simps dest: bit_below5 bit_below4 bit_below7)
  done

lemma month_field:
  "unat d < 32 \<Longrightarrow> unat m < 16 \<Longrightarrow> unat (e::u16) < 128 \<Longrightarrow>
   (ucast (drop_bit 7 ((push_bit 11 (ucast (d::u8)) OR push_bit 7 (ucast (m::u8)) OR e)
       AND push_bit 7 (mask 4) :: u16)) :: u8) = m"
  apply (rule bit_word_eqI)
  apply (auto simp add: bit_simps dest: bit_below5 bit_below4 bit_below7)
  done

lemma year_field:
  "unat d < 32 \<Longrightarrow> unat m < 16 \<Longrightarrow> unat (e::u16) < 128 \<Longrightarrow>
   ((push_bit 11 (ucast (d::u8)) OR push_bit 7 (ucast (m::u8)) OR e) AND mask 7 :: u16) = e"
  apply (rule bit_word_eqI)
  apply (auto simp add: bit_simps dest: bit_below5 bit_below4 bit_below7)
  done

lemma fields_uint:
  "unat d < 32 \<Longrightarrow> unat m < 16 \<Longrightarrow> unat (e::u16) < 128 \<Longrightarrow>
   uint (push_bit 11 (ucast (d::u8)) OR push_bit 7 (ucast (m::u8)) OR e :: u16)
   = push_bit 11 (uint d AND mask 5) OR push_bit 7 (uint m AND mask 4) OR (uint e AND mask 7)"
  apply (rule bit_eqI)
  apply (auto simp add: bit_simps dest: bit_below5 bit_below4 bit_below7)
  done

lemma pack_date_fields:
  assumes "unat d < 32" "unat m < 16" "2000 \<le> unat y" "unat y \<le> 2127"
  shows "pack_date m d y = push_bit 11 (ucast d) OR push_bit 7 (ucast m) OR (y - 2000)"
  unfolding pack_date_def mask_numerals32 year_offset_ucast [OF assms(3)]
  using assms by (intro pack_fields year_offset_small) 

lemma uint_unpack_date_year: "uint (unpack_date_year v) = (uint v AND 0x7F) + 2000"
proof -
  let ?w = "v AND 0x7F"
  have "?w \<le> 0x7F" by (rule word_and_le1)
  then have small: "unat ?w \<le> 127" by (simp add: word_le_nat_alt)
  then have "unat (?w + 2000) = unat ?w + 2000" by (simp add: unat_word_ariths)
  then have "int (unat (?w + 2000)) = int (unat ?w) + 2000" by simp
  then have "uint (?w + 2000) = uint ?w + 2000" by (simp only: uint_nat)
  moreover have "uint ?w = uint v AND 0x7F" by (simp add: unsigned_and_eq)
  ultimately show ?thesis by (simp add: unpack_date_year_def)
qed


section \<open>Date packing round-trips\<close>

text \<open>
  Claim C6. For every day \<open>d\<close> in 1..31, month \<open>m\<close> in 1..12 and year \<open>y\<close> in 2000..2127,
  \<open>pack_date m d y\<close> is the number the specification's formula gives, and the three
  unpacking functions give back \<open>d\<close>, \<open>m\<close> and \<open>y\<close>; the year is read back as
  \<open>(value & 0x7F) + 2000\<close>.
\<close>

theorem pack_date_round_trip:
  assumes "1 \<le> unat d" "unat d \<le> 31" "1 \<le> unat m" "unat m \<le> 12"
    and "2000 \<le> unat y" "unat y \<le> 2127"
  shows "uint (pack_date m d y) = pack_date_spec (uint m) (uint d) (uint y)
       \<and> unpack_date_day (pack_date m d y) = d
       \<and> unpack_date_month (pack_date m d y) = m
       \<and> unpack_date_year (pack_date m d y) = y
       \<and> uint (unpack_date_year (pack_date m d y)) = (uint (pack_date m d y) AND 0x7F) + 2000"
proof -
  let ?e = "y - 2000"
  have d: "unat d < 32" and m: "unat m < 16" using assms by simp_all
  have e: "unat ?e < 128" using assms by (intro year_offset_small)
  have p: "pack_date m d y = push_bit 11 (ucast d) OR push_bit 7 (ucast m) OR ?e"
    using d m assms(5,6) by (rule pack_date_fields)
  have 1: "uint (pack_date m d y) = pack_date_spec (uint m) (uint d) (uint y)"
    unfolding p pack_date_spec_def mask_numerals_int
    using fields_uint [OF d m e] year_offset_uint [OF assms(5)] by simp
  have 2: "unpack_date_day (pack_date m d y) = d"
    unfolding p unpack_date_day_def mask_numerals16 using d m e by (rule day_field)
  have 3: "unpack_date_month (pack_date m d y) = m"
    unfolding p unpack_date_month_def mask_numerals16 using d m e by (rule month_field)
  have "(pack_date m d y AND mask 7) = ?e"
    unfolding p using d m e by (rule year_field)
  then have 4: "unpack_date_year (pack_date m d y) = y"
    by (simp add: unpack_date_year_def mask_numerals16)
  have 5: "uint (unpack_date_year (pack_date m d y)) = (uint (pack_date m d y) AND 0x7F) + 2000"
    by (rule uint_unpack_date_year)
  show ?thesis using 1 2 3 4 5 by (intro conjI)
qed

theorem pack_date_round_trip_witness:
  "1 \<le> unat (21::u8) \<and> unat (21::u8) \<le> 31 \<and> 1 \<le> unat (11::u8) \<and> unat (11::u8) \<le> 12
   \<and> 2000 \<le> unat (2014::u16) \<and> unat (2014::u16) \<le> 2127
   \<and> uint (pack_date 11 21 2014) = pack_date_spec 11 21 2014
   \<and> pack_date 11 21 2014 = 0xAD8E
   \<and> unpack_date_day (pack_date 11 21 2014) = 21
   \<and> unpack_date_month (pack_date 11 21 2014) = 11
   \<and> unpack_date_year (pack_date 11 21 2014) = 2014"
  using pack_date_round_trip [of 21 11 2014]
  by (simp add: pack_date_def)


section \<open>Reconciliation\<close>

text \<open>
  Claim C2. \<open>SyncTagState\<close> computes the specification's reconciliation: with the tag
  present and the state \<open>TagOutOfRange\<close> or \<open>Scanning\<close>, the state becomes \<open>TagInRange\<close> and
  the entered-range event is signaled once; with the tag absent and the state \<open>TagInRange\<close>,
  \<open>TagDataLoaded\<close> or \<open>Unknown6\<close>, the state becomes \<open>TagOutOfRange\<close> and the left-range
  event is signaled once; in the nine other combinations of state and presence nothing
  changes and no event is signaled. No other field of the module changes.
\<close>

theorem SyncTagState_reconcile:
  "SyncTagState m =
     (case reconcile_spec (nfc_tag_state m) (amiibo_in_range m) of
        (state', entered, left) \<Rightarrow>
          m\<lparr>nfc_tag_state := state',
            tag_in_range_event := tag_in_range_event m + entered,
            tag_out_of_range_event := tag_out_of_range_event m + left\<rparr>)
   \<and> reconcile_spec TagOutOfRange True = (TagInRange, 1, 0)
   \<and> reconcile_spec Scanning True = (TagInRange, 1, 0)
   \<and> reconcile_spec TagInRange False = (TagOutOfRange, 0, 1)
   \<and> reconcile_spec TagDataLoaded False = (TagOutOfRange, 0, 1)
   \<and> reconcile_spec Unknown6 False = (TagOutOfRange, 0, 1)
   \<and> reconcile_spec NotInitialized True = (NotInitialized, 0, 0)
   \<and> reconcile_spec NotScanning True = (NotScanning, 0, 0)
   \<and> reconcile_spec TagInRange True = (TagInRange, 0, 0)
   \<and> reconcile_spec TagDataLoaded True = (TagDataLoaded, 0, 0)
   \<and> reconcile_spec Unknown6 True = (Unknown6, 0, 0)
   \<and> reconcile_spec NotInitialized False = (NotInitialized, 0, 0)
   \<and> reconcile_spec NotScanning False = (NotScanning, 0, 0)
   \<and> reconcile_spec Scanning False = (Scanning, 0, 0)
   \<and> reconcile_spec TagOutOfRange False = (TagOutOfRange, 0, 0)"
  by (simp add: SyncTagState_def reconcile_spec_def Signal_def)

section \<open>State gating\<close>

text \<open>
  Claim C1. For each of \<open>Initialize\<close>, \<open>StartTagScanning\<close>, \<open>StopTagScanning\<close>,
  \<open>ResetTagScanState\<close>, \<open>GetTagInfo\<close>, \<open>GetTagInRangeEvent\<close> and \<open>GetTagOutOfRangeEvent\<close>,
  invoked in a state outside its accepted set, the reply is the status
  \<open>CommandInvalidForState\<close> alone, and the module (its state, the amiibo's bytes, both
  events and every other field) and the files are unchanged.
\<close>

theorem state_gating:
  assumes "accepted_states_spec c = Some A" and "nfc_tag_state m \<notin> A"
  shows "invoke c fs m = Inr (Some (ResultCode CommandInvalidForState, NoPayload), m, fs)"
  using assms
  by (cases c)
     (auto simp: accepted_states_spec_def keep_files_def invalid_state_def status_only_def
        Initialize_def StartTagScanning_def StopTagScanning_def ResetTagScanState_def
        GetTagInfo_def GetTagInRangeEvent_def GetTagOutOfRangeEvent_def
        intro: TagState.exhaust)

theorem state_gating_witness:
  "accepted_states_spec (Cmd_StartTagScanning 0) = Some {NotScanning, TagOutOfRange}
   \<and> nfc_tag_state sample_module \<notin> {NotScanning, TagOutOfRange}
   \<and> invoke (Cmd_StartTagScanning 0) sample_files sample_module
       = Inr (Some (ResultCode CommandInvalidForState, NoPayload), sample_module, sample_files)"
proof -
  have a: "accepted_states_spec (Cmd_StartTagScanning 0) = Some {NotScanning, TagOutOfRange}"
    by (simp add: accepted_states_spec_def)
  have b: "nfc_tag_state sample_module \<notin> {NotScanning, TagOutOfRange}"
    by (simp add: sample_module_def)
  show ?thesis using a b state_gating [OF a b] by simp
qed

lemma state_gating_exact:
  assumes "accepted_states_spec c = Some A" and "nfc_tag_state m \<in> A"
  shows "\<exists>p m'. invoke c fs m = Inr (Some (RESULT_SUCCESS, p), m', fs)"
  using assms
  by (cases c)
     (auto simp: accepted_states_spec_def keep_files_def invalid_state_def status_only_def
        Initialize_def StartTagScanning_def StopTagScanning_def ResetTagScanState_def
        GetTagInfo_def GetTagInRangeEvent_def GetTagOutOfRangeEvent_def Let_def)

section \<open>The specification's scenario\<close>

text \<open>
  Section 8 of the specification, run on the model: \<open>Initialize\<close>, \<open>StartTagScanning\<close>,
  loading a decrypted amiibo whose settings flag is unset, \<open>GetAmiiboSettings\<close>.
\<close>

lemma scenario:
  "(let m0 = fresh_module;
        (r1, m1) = Initialize 1 m0;
        (r2, m2) = StartTagScanning 0 m1;
        (ok, m3) = LoadAmiibo ''amiibo.bin'' sample_files m2;
        (r4, m4) = GetAmiiboSettings m3
    in r1 = Some (RESULT_SUCCESS, NoPayload) \<and> nfc_tag_state m1 = NotScanning
       \<and> r2 = Some (RESULT_SUCCESS, NoPayload) \<and> nfc_tag_state m2 = Scanning
       \<and> ok \<and> amiibo_decrypted m3 \<and> nfc_tag_state m3 = TagInRange
       \<and> tag_in_range_event m3 = 1 \<and> tag_out_of_range_event m3 = 0
       \<and> r4 = Some (ResultCode AmiiboNotSetup, PushAmiiboSettings zeroed_settings)
       \<and> m4 = m3)"
  by (simp add: fresh_module_def Initialize_def StartTagScanning_def SyncTagState_def
      LoadAmiibo_def ReadBytes_def sample_files_def amiibo_size_def Signal_def
      GetAmiiboSettings_def status_only_def dec_unknown3_def dec_flags_def
      flag_settings_initted_def)

section \<open>Reading and writing the byte buffer\<close>

lemma length_write_u16_be: "length (write_u16_be d off v) = length d"
  by (simp add: write_u16_be_def)

lemma u16_bytes:
  "push_bit 8 (ucast (ucast (drop_bit 8 (v::u16)) :: u8)) OR ucast (ucast v :: u8) = v"
  apply (rule bit_word_eqI)
  apply (auto simp add: bit_simps)
  done

lemma read_write_u16_be:
  "off + 1 < length d \<Longrightarrow> read_u16_be (write_u16_be d off v) off = v"
  by (simp add: read_u16_be_def write_u16_be_def u16_bytes)

lemma read_write_u16_be_other:
  "off' + 1 < off \<or> off + 1 < off' \<Longrightarrow>
   read_u16_be (write_u16_be d off v) off' = read_u16_be d off'"
  by (auto simp add: read_u16_be_def write_u16_be_def)

lemma nth_write_u16_be:
  "i \<noteq> off \<Longrightarrow> i \<noteq> off + 1 \<Longrightarrow> write_u16_be d off v ! i = d ! i"
  by (simp add: write_u16_be_def)

lemma length_memcpy_at:
  "off + n \<le> length d \<Longrightarrow> n \<le> length src \<Longrightarrow> length (memcpy_at d off src n) = length d"
  by (simp add: memcpy_at_def)

lemma read_memcpy_at:
  "off + n \<le> length d \<Longrightarrow> n \<le> length src \<Longrightarrow>
   read_bytes (memcpy_at d off src n) off n = take n src"
  by (simp add: memcpy_at_def read_bytes_def)

lemma nth_memcpy_at_before:
  "i < off \<Longrightarrow> off \<le> length d \<Longrightarrow> memcpy_at d off src n ! i = d ! i"
  by (simp add: memcpy_at_def nth_append)

lemma nth_memcpy_at_after:
  "off + n \<le> i \<Longrightarrow> i < length d \<Longrightarrow> n \<le> length src \<Longrightarrow>
   memcpy_at d off src n ! i = d ! i"
  by (auto simp add: memcpy_at_def nth_append min_def)

section \<open>The undocumented operation 0x1A\<close>

lemma SyncTagState_not_Unknown6:
  "nfc_tag_state m \<noteq> Unknown6 \<Longrightarrow> nfc_tag_state (SyncTagState m) \<noteq> Unknown6"
  by (simp add: SyncTagState_def)

lemma RemoveAmiibo_not_Unknown6:
  "nfc_tag_state (RemoveAmiibo m) = Unknown6 \<Longrightarrow> False"
  by (auto simp add: RemoveAmiibo_def SyncTagState_def split: if_splits)

lemma LoadAmiibo_not_Unknown6:
  "nfc_tag_state m \<noteq> Unknown6 \<Longrightarrow> nfc_tag_state (snd (LoadAmiibo p fs m)) \<noteq> Unknown6"
  by (simp add: LoadAmiibo_def SyncTagState_def split: option.splits)

lemma UpdateStoredAmiiboData_not_Unknown6:
  "nfc_tag_state m \<noteq> Unknown6 \<Longrightarrow>
   nfc_tag_state (fst (snd (UpdateStoredAmiiboData fs m))) \<noteq> Unknown6"
  by (auto simp add: UpdateStoredAmiiboData_def Let_def split: prod.splits
      dest: RemoveAmiibo_not_Unknown6)

lemma invoke_enters_Unknown6:
  assumes "invoke c fs m = Inr (r, m', fs')"
    and "nfc_tag_state m' = Unknown6" and "nfc_tag_state m \<noteq> Unknown6"
  shows "c = Cmd_Unknown0x1A \<and> nfc_tag_state m = TagInRange"
proof (cases c)
  case Cmd_UpdateStoredAmiiboData
  with assms UpdateStoredAmiiboData_not_Unknown6 [of m fs] show ?thesis by auto
next
  case (Cmd_InitializeWriteAppData a s b)
  with assms show ?thesis
    by (auto simp: keep_files_def InitializeWriteAppData_def split: if_splits sum.splits)
next
  case Cmd_Unknown0x1A
  with assms show ?thesis
    by (auto simp: keep_files_def Unknown0x1A_def split: if_splits)
qed (use assms in \<open>auto simp: keep_files_def Initialize_def Shutdown_def StartCommunication_def
        StopCommunication_def StartTagScanning_def StopTagScanning_def LoadAmiiboData_def
        ResetTagScanState_def GetTagInRangeEvent_def GetTagOutOfRangeEvent_def
        GetTagState_def CommunicationGetStatus_def GetTagInfo_def OpenAppData_def
        ReadAppData_def WriteAppData_def GetAmiiboSettings_def GetAmiiboConfig_def
        GetIdentificationBlock_def SyncTagState_def Let_def split: if_splits\<close>)

text \<open>
  Claim C10. \<open>Unknown0x1A\<close> succeeds exactly in the state \<open>TagInRange\<close>: there it sets the
  state to \<open>Unknown6\<close> and returns success; in every other state it returns
  \<open>CommandInvalidForState\<close> and changes nothing. It is the only operation that enters
  \<open>Unknown6\<close>: whenever a command that returns takes the module from another state into
  \<open>Unknown6\<close>, the command is \<open>Unknown0x1A\<close>; loading and removing a tag never enter it.
\<close>

theorem Unknown0x1A_only_entry:
  "(nfc_tag_state m = TagInRange \<longrightarrow>
      Unknown0x1A m = (Some (RESULT_SUCCESS, NoPayload), m\<lparr>nfc_tag_state := Unknown6\<rparr>))
   \<and> (nfc_tag_state m \<noteq> TagInRange \<longrightarrow>
      Unknown0x1A m = (Some (ResultCode CommandInvalidForState, NoPayload), m))
   \<and> (invoke c fs m = Inr (r, m', fs') \<and> nfc_tag_state m' = Unknown6
        \<and> nfc_tag_state m \<noteq> Unknown6 \<longrightarrow> c = Cmd_Unknown0x1A)
   \<and> (nfc_tag_state m \<noteq> Unknown6 \<longrightarrow>
        nfc_tag_state (snd (LoadAmiibo path fs m)) \<noteq> Unknown6
        \<and> nfc_tag_state (RemoveAmiibo m) \<noteq> Unknown6)"
  using invoke_enters_Unknown6 [of c fs m r m' fs'] LoadAmiibo_not_Unknown6 [of m path fs]
    RemoveAmiibo_not_Unknown6 [of m]
  by (auto simp: Unknown0x1A_def status_only_def invalid_state_def)

theorem Unknown0x1A_only_entry_witness:
  "nfc_tag_state (sample_module\<lparr>nfc_tag_state := TagInRange\<rparr>) = TagInRange
   \<and> Unknown0x1A (sample_module\<lparr>nfc_tag_state := TagInRange\<rparr>)
       = (Some (RESULT_SUCCESS, NoPayload), sample_module\<lparr>nfc_tag_state := Unknown6\<rparr>)
   \<and> nfc_tag_state sample_module \<noteq> TagInRange
   \<and> Unknown0x1A sample_module
       = (Some (ResultCode CommandInvalidForState, NoPayload), sample_module)
   \<and> invoke Cmd_Unknown0x1A sample_files (sample_module\<lparr>nfc_tag_state := TagInRange\<rparr>)
       = Inr (Some (RESULT_SUCCESS, NoPayload), sample_module\<lparr>nfc_tag_state := Unknown6\<rparr>,
              sample_files)
   \<and> nfc_tag_state (sample_module\<lparr>nfc_tag_state := Unknown6\<rparr>) = Unknown6
   \<and> nfc_tag_state (sample_module\<lparr>nfc_tag_state := TagInRange\<rparr>) \<noteq> Unknown6
   \<and> nfc_tag_state sample_module \<noteq> Unknown6
   \<and> nfc_tag_state (snd (LoadAmiibo ''amiibo.bin'' sample_files sample_module)) \<noteq> Unknown6
   \<and> nfc_tag_state (RemoveAmiibo sample_module) \<noteq> Unknown6"
proof -
  let ?m = "sample_module\<lparr>nfc_tag_state := TagInRange\<rparr>"
  let ?m' = "sample_module\<lparr>nfc_tag_state := Unknown6\<rparr>"
  have s: "nfc_tag_state sample_module = TagDataLoaded" by (simp add: sample_module_def)
  show ?thesis
    using Unknown0x1A_only_entry
        [where m = ?m and c = Cmd_Unknown0x1A and fs = sample_files
           and r = "Some (RESULT_SUCCESS, NoPayload)" and m' = ?m' and fs' = sample_files]
      Unknown0x1A_only_entry
        [where m = sample_module and fs = sample_files and path = "''amiibo.bin''"]
    by (simp add: s keep_files_def)
qed

section \<open>Reading the settings\<close>

lemma length_setup_data: "length setup_data = 0x21C"
  by (simp add: setup_data_def)

lemma setup_data_bytes:
  "setup_data ! 0x2C = 0x13" "setup_data ! 0x2D = 0x4E"
  "setup_data ! 0x30 = 0xAD" "setup_data ! 0x31 = 0x8E" "setup_data ! 0x1E3 = 0x02"
  by (simp_all add: setup_data_def nth_append)

lemma setup_data_nickname: "take 0x14 (drop 0x38 setup_data) = [0x00, 0x41] @ replicate 18 0"
  by (simp add: setup_data_def)

lemma setup_data_mii: "take 0x60 (drop 0x4C setup_data) = [0xAA, 0xBB] @ replicate 94 0"
  by (simp add: setup_data_def)

lemma setup_data_mii_start: "take 2 (drop 0x4C setup_data) = [0xAA, 0xBB]"
  by (simp add: setup_data_def)

lemma nickname_bytes:
  "take 22 (drop 0x38 d) = take 0x14 (drop 0x38 d) @ take 2 (drop 0x4C (d :: u8 list))"
proof -
  have "take (20 + 2) (drop 0x38 d) = take 20 (drop 0x38 d) @ take 2 (drop 20 (drop 0x38 d))"
    by (rule take_add)
  then show ?thesis by simp
qed

text \<open>
  What \<open>GetAmiiboSettings\<close> replies for a decrypted amiibo, on the bytes of the record:
  the flags at 0x2C, the country at 0x2D, the setup date in the big-endian bytes 0x30 and
  0x31, the mii in the 0x60 bytes from 0x4C. The module is unchanged. The 22 bytes of the
  reply's \<open>nickname\<close> are the 0x14 bytes from 0x38 and then the first two bytes of the mii.
\<close>

lemma GetAmiiboSettings_raw:
  assumes "amiibo_decrypted m"
  shows "(amiibo_data m ! 0x2C AND 0x10 = 0 \<longrightarrow>
            GetAmiiboSettings m =
              (Some (ResultCode AmiiboNotSetup,
                     PushAmiiboSettings
                       \<lparr>mii = replicate 0x60 0, nickname = replicate 22 0, flags = 0,
                        country = 0, setup_year = 0, setup_month = 0, setup_day = 0,
                        dummy = replicate 0x2C 0\<rparr>), m))
       \<and> (amiibo_data m ! 0x2C AND 0x10 \<noteq> 0 \<longrightarrow>
            GetAmiiboSettings m =
              (Some (RESULT_SUCCESS,
                     PushAmiiboSettings
                       \<lparr>mii = take 0x60 (drop 0x4C (amiibo_data m)),
                        nickname = take 0x14 (drop 0x38 (amiibo_data m))
                                   @ take 2 (drop 0x4C (amiibo_data m)),
                        flags = amiibo_data m ! 0x2C AND 0xF,
                        country = amiibo_data m ! 0x2D,
                        setup_year =
                          unpack_date_year
                            (push_bit 8 (ucast (amiibo_data m ! 0x30))
                             OR ucast (amiibo_data m ! 0x31)),
                        setup_month =
                          unpack_date_month
                            (push_bit 8 (ucast (amiibo_data m ! 0x30))
                             OR ucast (amiibo_data m ! 0x31)),
                        setup_day =
                          unpack_date_day
                            (push_bit 8 (ucast (amiibo_data m ! 0x30))
                             OR ucast (amiibo_data m ! 0x31)),
                        dummy = replicate 0x2C 0\<rparr>), m))"
  using assms
  by (simp add: GetAmiiboSettings_def flag_settings_initted_def zeroed_settings_def Let_def
      nickname_bytes dec_flags_def dec_country_def dec_setup_date_def read_u16_be_def
      dec_mii_def dec_nickname_def read_bytes_def)

text \<open>
  Claim C9. The claim holds for the status, the mii, the masked flags, the country, the
  setup date and the unchanged module, and fails for the nickname: \<open>memcpy\<close> copies
  \<open>sizeof(AmiiboSettings::nickname)\<close>, 22 bytes, out of the record's 20-byte nickname, so
  the last \<open>u16\<close> of the reply's nickname is not the record's nickname but the first two
  bytes of its mii. Here the record's nickname is 0x00 0x41 and 18 zero bytes, its mii
  starts with 0xAA 0xBB, and the reply's nickname ends with 0xAA 0xBB.
\<close>

theorem GetAmiiboSettings_nickname_over_read:
  "amiibo_decrypted setup_module
   \<and> length (amiibo_data setup_module) = 0x21C
   \<and> amiibo_data setup_module ! 0x2C AND 0x10 \<noteq> 0
   \<and> take 0x14 (drop 0x38 (amiibo_data setup_module)) = [0x00, 0x41] @ replicate 18 0
   \<and> take 0x60 (drop 0x4C (amiibo_data setup_module)) = [0xAA, 0xBB] @ replicate 94 0
   \<and> GetAmiiboSettings setup_module =
       (Some (RESULT_SUCCESS,
              PushAmiiboSettings
                \<lparr>mii = [0xAA, 0xBB] @ replicate 94 0,
                 nickname = [0x00, 0x41] @ replicate 18 0 @ [0xAA, 0xBB],
                 flags = 0x03, country = 0x4E,
                 setup_year = 2014, setup_month = 11, setup_day = 21,
                 dummy = replicate 0x2C 0\<rparr>), setup_module)"
proof -
  have d: "amiibo_data setup_module = setup_data" by (simp add: setup_module_def)
  have a: "amiibo_decrypted setup_module" by (simp add: setup_module_def sample_module_def)
  have date: "(push_bit 8 (ucast (0xAD :: u8)) OR ucast (0x8E :: u8) :: u16) = 0xAD8E"
    by simp
  have un: "unpack_date_year 0xAD8E = 2014" "unpack_date_month 0xAD8E = 11"
    "unpack_date_day 0xAD8E = 21"
    by (simp_all add: unpack_date_year_def unpack_date_month_def unpack_date_day_def)
  show ?thesis
    using GetAmiiboSettings_raw [OF a]
    by (simp add: d a length_setup_data setup_data_bytes setup_data_nickname setup_data_mii
        setup_data_mii_start date un)
qed

section \<open>Loading an amiibo\<close>

text \<open>
  Claim C8. \<open>LoadAmiibo\<close> returns false and leaves the module unchanged when the file cannot
  be opened or holds fewer than 0x21C bytes. Otherwise it returns true, keeps the first
  0x21C bytes, and takes the amiibo as decrypted if and only if the byte at offset 0x1E3
  (\<open>unknown3\<close>) is 0x02.
\<close>

theorem LoadAmiibo_classifies:
  "(file_bytes fs path = None \<longrightarrow> LoadAmiibo path fs m = (False, m))
   \<and> (file_bytes fs path = Some bytes \<and> length bytes < 0x21C \<longrightarrow>
        LoadAmiibo path fs m = (False, m))
   \<and> (file_bytes fs path = Some bytes \<and> 0x21C \<le> length bytes \<longrightarrow>
        fst (LoadAmiibo path fs m)
        \<and> amiibo_data (snd (LoadAmiibo path fs m)) = take 0x21C bytes
        \<and> length (amiibo_data (snd (LoadAmiibo path fs m))) = 0x21C
        \<and> amiibo_decrypted (snd (LoadAmiibo path fs m))
            = (amiibo_data (snd (LoadAmiibo path fs m)) ! 0x1E3 = 0x02)
        \<and> amiibo_filename (snd (LoadAmiibo path fs m)) = path
        \<and> amiibo_in_range (snd (LoadAmiibo path fs m)))"
  by (simp add: LoadAmiibo_def ReadBytes_def amiibo_size_def SyncTagState_def
      dec_unknown3_def)

lemma sample_file: "file_bytes sample_files ''amiibo.bin'' = Some (amiibo_data sample_module)"
  by (simp add: sample_files_def sample_module_def)

lemma length_sample: "length (amiibo_data sample_module) = 0x21C"
  by (simp add: sample_module_def)

theorem LoadAmiibo_classifies_witness:
  "file_bytes sample_files ''missing.bin'' = None
   \<and> LoadAmiibo ''missing.bin'' sample_files sample_module = (False, sample_module)
   \<and> file_bytes (sample_files\<lparr>file_bytes := (\<lambda>p. Some [0x02, 0x02])\<rparr>) ''short.bin''
        = Some [0x02, 0x02]
   \<and> length [0x02, 0x02 :: u8] < 0x21C
   \<and> LoadAmiibo ''short.bin'' (sample_files\<lparr>file_bytes := (\<lambda>p. Some [0x02, 0x02])\<rparr>)
        sample_module = (False, sample_module)
   \<and> file_bytes sample_files ''amiibo.bin'' = Some (amiibo_data sample_module)
   \<and> 0x21C \<le> length (amiibo_data sample_module)
   \<and> fst (LoadAmiibo ''amiibo.bin'' sample_files raw_module)
   \<and> amiibo_data (snd (LoadAmiibo ''amiibo.bin'' sample_files raw_module)) ! 0x1E3 = 0x02
   \<and> amiibo_decrypted (snd (LoadAmiibo ''amiibo.bin'' sample_files raw_module))"
  using LoadAmiibo_classifies
      [where fs = sample_files and path = "''missing.bin''" and m = sample_module]
    LoadAmiibo_classifies
      [where fs = "sample_files\<lparr>file_bytes := (\<lambda>p. Some [0x02, 0x02])\<rparr>"
         and path = "''short.bin''" and bytes = "[0x02, 0x02]" and m = sample_module]
    LoadAmiibo_classifies
      [where fs = sample_files and path = "''amiibo.bin''"
         and bytes = "amiibo_data sample_module" and m = raw_module]
  by (simp add: sample_file length_sample) (simp add: sample_files_def sample_module_def)

section \<open>Storing the amiibo\<close>

lemma update_metadata_props:
  assumes "length d = 0x21C"
  shows "length (update_metadata d) = 0x21C"
    and "dec_last_write_date (update_metadata d) = pack_date 11 21 2014"
    and "dec_write_count (update_metadata d) = dec_write_count d + 1"
    and "i \<notin> {0x32, 0x33, 0xB4, 0xB5} \<Longrightarrow> update_metadata d ! i = d ! i"
proof -
  show "length (update_metadata d) = 0x21C"
    using assms by (simp add: update_metadata_def Let_def length_write_u16_be)
  show "dec_last_write_date (update_metadata d) = pack_date 11 21 2014"
    using assms
    by (simp add: update_metadata_def Let_def dec_last_write_date_def read_write_u16_be_other
        read_write_u16_be)
  show "dec_write_count (update_metadata d) = dec_write_count d + 1"
    using assms
    by (simp add: update_metadata_def Let_def dec_write_count_def read_write_u16_be length_write_u16_be
        read_write_u16_be_other)
  show "i \<notin> {0x32, 0x33, 0xB4, 0xB5} \<Longrightarrow> update_metadata d ! i = d ! i"
    by (simp add: update_metadata_def Let_def nth_write_u16_be)
qed

lemma UpdateStoredAmiiboData_runs:
  assumes "nfc_tag_state m = TagDataLoaded" and "amiibo_decrypted m"
    and "amiibo_filename m \<noteq> []"
  shows "UpdateStoredAmiiboData fs m =
     (Some (RESULT_SUCCESS, NoPayload),
      m\<lparr>amiibo_data := update_metadata (amiibo_data m), amiibo_in_range := False,
        nfc_tag_state := TagOutOfRange,
        tag_out_of_range_event := Suc (tag_out_of_range_event m)\<rparr>,
      (case write_mode fs (amiibo_filename m) of
         CannotOpen \<Rightarrow> fs
       | CannotWrite \<Rightarrow> fs\<lparr>file_bytes := (file_bytes fs)(amiibo_filename m := Some [])\<rparr>
       | Writable \<Rightarrow> fs\<lparr>file_bytes := (file_bytes fs)
           (amiibo_filename m := Some (take 0x21C (update_metadata (amiibo_data m))))\<rparr>))"
  using assms
  by (simp add: UpdateStoredAmiiboData_def open_wb_def WriteBytes_def RemoveAmiibo_def
      SyncTagState_def Signal_def status_only_def Let_def amiibo_size_def
      split: WriteMode.splits)

text \<open>
  Claim C7. \<open>UpdateStoredAmiiboData\<close> in the state \<open>TagDataLoaded\<close>, with a decrypted
  amiibo, a file name and a writable file: the reply is success; \<open>last_write_date\<close> is
  \<open>pack_date 11 21 2014\<close>; \<open>write_count\<close> is one more than before (modulo 2^16); no other
  byte of the record changes; the file holds the 0x21C bytes of the updated record; the tag
  is removed, so \<open>amiibo_in_range\<close> is false, the state is \<open>TagOutOfRange\<close> and the
  left-range event has been signaled once.
\<close>

theorem UpdateStoredAmiiboData_success:
  assumes "nfc_tag_state m = TagDataLoaded" and "amiibo_decrypted m"
    and "amiibo_filename m \<noteq> []" and "write_mode fs (amiibo_filename m) = Writable"
    and "length (amiibo_data m) = 0x21C"
  shows "case UpdateStoredAmiiboData fs m of (reply, m', fs') \<Rightarrow>
     reply = Some (RESULT_SUCCESS, NoPayload)
     \<and> dec_last_write_date (amiibo_data m') = pack_date 11 21 2014
     \<and> dec_write_count (amiibo_data m') = dec_write_count (amiibo_data m) + 1
     \<and> (\<forall>i. i \<notin> {0x32, 0x33, 0xB4, 0xB5} \<longrightarrow> amiibo_data m' ! i = amiibo_data m ! i)
     \<and> length (amiibo_data m') = 0x21C
     \<and> file_bytes fs' (amiibo_filename m) = Some (amiibo_data m')
     \<and> \<not> amiibo_in_range m'
     \<and> nfc_tag_state m' = TagOutOfRange
     \<and> tag_out_of_range_event m' = tag_out_of_range_event m + 1
     \<and> tag_in_range_event m' = tag_in_range_event m"
  using update_metadata_props [OF assms(5)]
  by (simp add: UpdateStoredAmiiboData_runs [OF assms(1-3)] assms(4))

lemma sample_counts:
  "dec_write_count (amiibo_data sample_module) = 0"
  "dec_last_write_date (amiibo_data sample_module) = 0"
  by (simp_all add: sample_module_def dec_write_count_def dec_last_write_date_def
      read_u16_be_def)

theorem UpdateStoredAmiiboData_success_witness:
  "nfc_tag_state sample_module = TagDataLoaded \<and> amiibo_decrypted sample_module
   \<and> amiibo_filename sample_module \<noteq> []
   \<and> write_mode sample_files (amiibo_filename sample_module) = Writable
   \<and> length (amiibo_data sample_module) = 0x21C
   \<and> fst (UpdateStoredAmiiboData sample_files sample_module) = Some (RESULT_SUCCESS, NoPayload)
   \<and> dec_last_write_date
        (amiibo_data (fst (snd (UpdateStoredAmiiboData sample_files sample_module)))) = 0xAD8E
   \<and> dec_write_count
        (amiibo_data (fst (snd (UpdateStoredAmiiboData sample_files sample_module)))) = 1
   \<and> file_bytes (snd (snd (UpdateStoredAmiiboData sample_files sample_module))) ''amiibo.bin''
        = Some (amiibo_data (fst (snd (UpdateStoredAmiiboData sample_files sample_module))))
   \<and> nfc_tag_state (fst (snd (UpdateStoredAmiiboData sample_files sample_module)))
        = TagOutOfRange"
proof -
  have h: "nfc_tag_state sample_module = TagDataLoaded" "amiibo_decrypted sample_module"
    "amiibo_filename sample_module \<noteq> []"
    "write_mode sample_files (amiibo_filename sample_module) = Writable"
    "length (amiibo_data sample_module) = 0x21C"
    by (simp_all add: sample_module_def sample_files_def)
  have p: "pack_date 11 21 2014 = 0xAD8E" by (simp add: pack_date_def)
  have f: "amiibo_filename sample_module = ''amiibo.bin''" by (simp add: sample_module_def)
  show ?thesis
    using h UpdateStoredAmiiboData_success [OF h]
    by (simp add: p f sample_counts split: prod.splits)
qed

text \<open>
  Claim C4. At a file that cannot be opened for writing, \<open>UpdateStoredAmiiboData\<close> does not
  report an error and does not leave the module alone: the reply is success, \<open>write_count\<close>
  and \<open>last_write_date\<close> are updated in memory, and the tag is removed. Only the file is
  unchanged.
\<close>

theorem UpdateStoredAmiiboData_unwritable:
  "nfc_tag_state sample_module = TagDataLoaded \<and> amiibo_decrypted sample_module
   \<and> amiibo_filename sample_module = ''amiibo.bin''
   \<and> write_mode readonly_files ''amiibo.bin'' = CannotOpen
   \<and> amiibo_in_range sample_module
   \<and> dec_write_count (amiibo_data sample_module) = 0
   \<and> dec_last_write_date (amiibo_data sample_module) = 0
   \<and> fst (UpdateStoredAmiiboData readonly_files sample_module)
        = Some (RESULT_SUCCESS, NoPayload)
   \<and> dec_write_count
        (amiibo_data (fst (snd (UpdateStoredAmiiboData readonly_files sample_module)))) = 1
   \<and> dec_last_write_date
        (amiibo_data (fst (snd (UpdateStoredAmiiboData readonly_files sample_module)))) = 0xAD8E
   \<and> nfc_tag_state (fst (snd (UpdateStoredAmiiboData readonly_files sample_module)))
        = TagOutOfRange
   \<and> \<not> amiibo_in_range (fst (snd (UpdateStoredAmiiboData readonly_files sample_module)))
   \<and> snd (snd (UpdateStoredAmiiboData readonly_files sample_module)) = readonly_files"
proof -
  have h: "nfc_tag_state sample_module = TagDataLoaded" "amiibo_decrypted sample_module"
    "amiibo_filename sample_module \<noteq> []"
    by (simp_all add: sample_module_def)
  have l: "length (amiibo_data sample_module) = 0x21C" by (simp add: sample_module_def)
  have w: "write_mode readonly_files ''amiibo.bin'' = CannotOpen"
    by (simp add: readonly_files_def)
  have p: "pack_date 11 21 2014 = 0xAD8E" by (simp add: pack_date_def)
  have f: "amiibo_filename sample_module = ''amiibo.bin''" by (simp add: sample_module_def)
  have i: "amiibo_in_range sample_module" by (simp add: sample_module_def)
  show ?thesis
    using update_metadata_props(2,3) [OF l]
    by (simp add: UpdateStoredAmiiboData_runs [OF h] h w p f i sample_counts)
qed

section \<open>Writing the application data\<close>

lemma clamped_size_min: "clamped_size sz = min (unat sz) 0xD8"
  by (simp add: clamped_size_def app_data_size_def min_def)

lemma WriteAppData_runs:
  assumes "amiibo_decrypted m" and "nfc_tag_state m \<noteq> NotInitialized"
  shows "WriteAppData sz dummy_buffer buffer m =
     (Some (RESULT_SUCCESS, NoPayload),
      m\<lparr>amiibo_data :=
          (if clamped_size sz \<noteq> length buffer then amiibo_data m
           else memcpy_at (amiibo_data m) 0xDC buffer (length buffer)),
        nfc_tag_state := TagDataLoaded\<rparr>)"
  using assms
  by (simp add: WriteAppData_def Let_def status_only_def app_data_offset_def)

text \<open>
  What \<open>WriteAppData\<close> does on a decrypted amiibo in a state other than
  \<open>NotInitialized\<close>: the declared size is clamped to 0xD8; if the clamped size differs from
  the buffer's length, no byte of the record changes; if they are equal, the buffer is
  copied to the start of the application-data region and every byte of the record outside
  the copied range is unchanged. The reply and the state are the same in both cases.
\<close>

lemma WriteAppData_effect:
  assumes "amiibo_decrypted m" and "nfc_tag_state m \<noteq> NotInitialized"
    and "length (amiibo_data m) = 0x21C"
  shows "clamped_size sz = min (unat sz) 0xD8
     \<and> fst (WriteAppData sz dummy_buffer buffer m) = Some (RESULT_SUCCESS, NoPayload)
     \<and> nfc_tag_state (snd (WriteAppData sz dummy_buffer buffer m)) = TagDataLoaded
     \<and> tag_in_range_event (snd (WriteAppData sz dummy_buffer buffer m))
         = tag_in_range_event m
     \<and> tag_out_of_range_event (snd (WriteAppData sz dummy_buffer buffer m))
         = tag_out_of_range_event m
     \<and> amiibo_in_range (snd (WriteAppData sz dummy_buffer buffer m)) = amiibo_in_range m
     \<and> amiibo_decrypted (snd (WriteAppData sz dummy_buffer buffer m))
     \<and> (clamped_size sz \<noteq> length buffer \<longrightarrow>
          amiibo_data (snd (WriteAppData sz dummy_buffer buffer m)) = amiibo_data m)
     \<and> (clamped_size sz = length buffer \<longrightarrow>
          length (amiibo_data (snd (WriteAppData sz dummy_buffer buffer m))) = 0x21C
          \<and> take (length buffer)
               (dec_app_data (amiibo_data (snd (WriteAppData sz dummy_buffer buffer m))))
              = buffer
          \<and> (\<forall>i < 0x21C. i < 0xDC \<or> 0xDC + length buffer \<le> i \<longrightarrow>
                amiibo_data (snd (WriteAppData sz dummy_buffer buffer m)) ! i
                = amiibo_data m ! i))"
proof -
  have run: "WriteAppData sz dummy_buffer buffer m =
     (Some (RESULT_SUCCESS, NoPayload),
      m\<lparr>amiibo_data :=
          (if clamped_size sz \<noteq> length buffer then amiibo_data m
           else memcpy_at (amiibo_data m) 0xDC buffer (length buffer)),
        nfc_tag_state := TagDataLoaded\<rparr>)"
    using assms(1,2) by (rule WriteAppData_runs)
  have copy: "length (memcpy_at (amiibo_data m) 0xDC buffer (length buffer)) = 0x21C
       \<and> take (length buffer)
            (dec_app_data (memcpy_at (amiibo_data m) 0xDC buffer (length buffer))) = buffer
       \<and> (\<forall>i < 0x21C. i < 0xDC \<or> 0xDC + length buffer \<le> i \<longrightarrow>
             memcpy_at (amiibo_data m) 0xDC buffer (length buffer) ! i = amiibo_data m ! i)"
    if eq: "clamped_size sz = length buffer"
  proof -
    have n: "length buffer \<le> 0xD8" using eq clamped_size_min [of sz] by simp
    then have fits: "0xDC + length buffer \<le> length (amiibo_data m)"
      using assms(3) by simp
    have 1: "length (memcpy_at (amiibo_data m) 0xDC buffer (length buffer)) = 0x21C"
      using fits assms(3) by (simp add: length_memcpy_at)
    have "take (length buffer)
            (read_bytes (memcpy_at (amiibo_data m) 0xDC buffer (length buffer)) 0xDC 0xD8)
          = read_bytes (memcpy_at (amiibo_data m) 0xDC buffer (length buffer)) 0xDC
              (length buffer)"
      using n by (simp add: read_bytes_def min_def)
    also have "\<dots> = take (length buffer) buffer"
      using fits by (simp add: read_memcpy_at)
    finally have 2: "take (length buffer)
            (dec_app_data (memcpy_at (amiibo_data m) 0xDC buffer (length buffer))) = buffer"
      by (simp add: dec_app_data_def app_data_offset_def app_data_size_def)
    have 3: "\<forall>i < 0x21C. i < 0xDC \<or> 0xDC + length buffer \<le> i \<longrightarrow>
             memcpy_at (amiibo_data m) 0xDC buffer (length buffer) ! i = amiibo_data m ! i"
      using assms(3) by (auto simp: nth_memcpy_at_before nth_memcpy_at_after)
    show ?thesis using 1 2 3 by (intro conjI)
  qed
  show ?thesis
    using copy assms(1) by (simp add: run clamped_size_min)
qed

lemma WriteAppData_effect_example:
  "amiibo_decrypted sample_module \<and> nfc_tag_state sample_module \<noteq> NotInitialized
   \<and> length (amiibo_data sample_module) = 0x21C
   \<and> clamped_size 0x100 = 0xD8
   \<and> clamped_size 4 \<noteq> length [1, 2, 3 :: u8]
   \<and> fst (WriteAppData 4 [] [1, 2, 3] sample_module) = Some (RESULT_SUCCESS, NoPayload)
   \<and> amiibo_data (snd (WriteAppData 4 [] [1, 2, 3] sample_module)) = amiibo_data sample_module
   \<and> clamped_size 3 = length [1, 2, 3 :: u8]
   \<and> fst (WriteAppData 3 [] [1, 2, 3] sample_module) = Some (RESULT_SUCCESS, NoPayload)
   \<and> take 3 (dec_app_data (amiibo_data (snd (WriteAppData 3 [] [1, 2, 3] sample_module))))
        = [1, 2, 3]
   \<and> amiibo_data (snd (WriteAppData 3 [] [1, 2, 3] sample_module)) ! 0x1E3 = 0x02
   \<and> nfc_tag_state (snd (WriteAppData 3 [] [1, 2, 3] sample_module)) = TagDataLoaded"
proof -
  have h: "amiibo_decrypted sample_module" "nfc_tag_state sample_module \<noteq> NotInitialized"
    "length (amiibo_data sample_module) = 0x21C"
    by (simp_all add: sample_module_def)
  have c: "clamped_size 0x100 = 0xD8" "clamped_size 4 = 4" "clamped_size 3 = 3"
    by (simp_all add: clamped_size_def app_data_size_def)
  have s: "amiibo_data sample_module ! 0x1E3 = 0x02" by (simp add: sample_module_def)
  show ?thesis
    using h WriteAppData_effect [OF h, of 4 "[]" "[1, 2, 3]"]
      WriteAppData_effect [OF h, of 3 "[]" "[1, 2, 3]"]
    by (simp add: c s numeral_3_eq_3)
qed

text \<open>
  Claim C3. With the declared size 4 and a buffer of 3 bytes, \<open>WriteAppData\<close> leaves the
  record as it is, as the claim says, but its reply is \<open>RESULT_SUCCESS\<close>, where the claim
  says an error status; the state moves from \<open>TagInRange\<close> to \<open>TagDataLoaded\<close>.
\<close>

theorem WriteAppData_mismatch_succeeds:
  "amiibo_decrypted setup_module \<and> nfc_tag_state setup_module = TagInRange
   \<and> clamped_size 4 = 4 \<and> length [1, 2, 3 :: u8] = 3
   \<and> WriteAppData 4 [] [1, 2, 3] setup_module
       = (Some (RESULT_SUCCESS, NoPayload), setup_module\<lparr>nfc_tag_state := TagDataLoaded\<rparr>)"
  by (simp add: WriteAppData_def Let_def status_only_def setup_module_def sample_module_def
      clamped_size_def app_data_size_def)

section \<open>Operations that write no reply\<close>

lemma decrypted_always_replies:
  assumes "amiibo_decrypted m" and "invoke c fs m = Inr (r, m', fs')"
  shows "r \<noteq> None"
  using assms
  by (cases c)
     (auto simp: keep_files_def invalid_state_def status_only_def Initialize_def Shutdown_def
        StartCommunication_def StopCommunication_def StartTagScanning_def StopTagScanning_def
        LoadAmiiboData_def ResetTagScanState_def GetTagInRangeEvent_def
        GetTagOutOfRangeEvent_def GetTagState_def CommunicationGetStatus_def GetTagInfo_def
        OpenAppData_def ReadAppData_def WriteAppData_def GetAmiiboSettings_def
        GetAmiiboConfig_def GetIdentificationBlock_def Unknown0x1A_def
        InitializeWriteAppData_def UpdateStoredAmiiboData_def Let_def
        split: if_splits prod.splits)

lemma raw_no_reply_iff:
  assumes "\<not> amiibo_decrypted m" and "invoke c fs m = Inr (r, m', fs')"
  shows "r = None \<longleftrightarrow>
     c \<in> {Cmd_GetAmiiboSettings, Cmd_ReadAppData}
     \<or> (\<exists>a. c = Cmd_OpenAppData a)
     \<or> (\<exists>a s b. c = Cmd_InitializeWriteAppData a s b)
     \<or> (\<exists>s d b. c = Cmd_WriteAppData s d b)"
  using assms
  by (cases c)
     (auto simp: keep_files_def invalid_state_def status_only_def Initialize_def Shutdown_def
        StartCommunication_def StopCommunication_def StartTagScanning_def StopTagScanning_def
        LoadAmiiboData_def ResetTagScanState_def GetTagInRangeEvent_def
        GetTagOutOfRangeEvent_def GetTagState_def CommunicationGetStatus_def GetTagInfo_def
        OpenAppData_def ReadAppData_def WriteAppData_def GetAmiiboSettings_def
        GetAmiiboConfig_def GetIdentificationBlock_def Unknown0x1A_def
        InitializeWriteAppData_def UpdateStoredAmiiboData_def Let_def
        split: if_splits prod.splits)

text \<open>
  Claim C5. With an encrypted amiibo loaded, \<open>GetAmiiboSettings\<close>, \<open>OpenAppData\<close>,
  \<open>InitializeWriteAppData\<close>, \<open>ReadAppData\<close> and \<open>WriteAppData\<close> return before they build a
  reply: no status code is written.
\<close>

theorem raw_variant_no_reply:
  "\<not> amiibo_decrypted raw_module
   \<and> invoke Cmd_GetAmiiboSettings sample_files raw_module = Inr (None, raw_module, sample_files)
   \<and> invoke (Cmd_OpenAppData 0) sample_files raw_module = Inr (None, raw_module, sample_files)
   \<and> invoke (Cmd_InitializeWriteAppData 0 0 []) sample_files raw_module
        = Inr (None, raw_module, sample_files)
   \<and> invoke Cmd_ReadAppData sample_files raw_module = Inr (None, raw_module, sample_files)
   \<and> invoke (Cmd_WriteAppData 0 [] []) sample_files raw_module
        = Inr (None, raw_module, sample_files)"
  by (simp add: raw_module_def sample_module_def keep_files_def GetAmiiboSettings_def
      OpenAppData_def InitializeWriteAppData_def ReadAppData_def WriteAppData_def)

end
